theory Spec2Isabelle
  imports Main "HOL-Library.Sublist"
begin

section \<open>JavaScript values and library functions used by server.js\<close>

text \<open>
  The development embeds the first revision of \<^verbatim>\<open>src/server.js\<close> (lines 1 to 279):
  the \<^verbatim>\<open>/api/convert\<close> handler and the three-method \<^verbatim>\<open>getTranscript\<close>.

  A value of the parsed JSON request body. \<open>JUndefined\<close> is what destructuring yields
  for an absent property. Numbers are kept as integers: the code only ever tests a number
  for truthiness, and a fractional number is truthy like every other non-zero number.
  Arrays and objects are always truthy and are not inspected, so they are one constructor.
\<close>

datatype jsval = JUndefined | JNull | JBool bool | JNum int | JStr string | JObject

text \<open>JavaScript truthiness, as used by \<^verbatim>\<open>if (!videoId)\<close>.\<close>

fun truthy :: "jsval \<Rightarrow> bool" where
  "truthy JUndefined = False"
| "truthy JNull = False"
| "truthy (JBool b) = b"
| "truthy (JNum n) = (n \<noteq> 0)"
| "truthy (JStr s) = (s \<noteq> [])"
| "truthy JObject = True"

text \<open>
  \<^verbatim>\<open>String.prototype.includes\<close>: the pattern occurs as a contiguous, case-sensitive
  substring. The recursion tries the pattern at every position of the subject.
\<close>

fun str_includes :: "string \<Rightarrow> string \<Rightarrow> bool" where
  "str_includes [] p = (p = [])"
| "str_includes (c # s) p = (prefix p (c # s) \<or> str_includes s p)"

text \<open>\<^verbatim>\<open>Array.prototype.join\<close> on an array of strings.\<close>

fun join :: "string list \<Rightarrow> string \<Rightarrow> string" where
  "join [] sep = []"
| "join [x] sep = x"
| "join (x # y # ys) sep = x @ sep @ join (y # ys) sep"

text \<open>
  A thrown \<^verbatim>\<open>Error\<close>: its \<^verbatim>\<open>message\<close>, and the \<^verbatim>\<open>data\<close> of its
  \<^verbatim>\<open>response\<close> property when it has one (errors of the API client do, errors made by
  \<^verbatim>\<open>new Error(msg)\<close> do not). The payload is opaque text.
\<close>

record js_error =
  message :: string
  response :: "string option"

definition new_Error :: "string \<Rightarrow> js_error" where
  "new_Error msg = \<lparr>message = msg, response = None\<rparr>"

text \<open>The outcome of awaiting a call to an external service.\<close>

datatype 'a outcome = Returned 'a | Threw js_error

section \<open>The external services\<close>

text \<open>
  A caption segment as the two caption libraries return it; only \<^verbatim>\<open>text\<close> is read.
  A video resource of the platform API; only \<^verbatim>\<open>snippet.title\<close> is read.
  A caption track of the platform API is opaque and only counted.
\<close>

record segment =
  text_field :: string

record video =
  title :: string

type_synonym caption_track = string

text \<open>
  The process-wide configuration and the four external calls of the file, each a function
  of its arguments. An array-valued result is \<open>None\<close> when the service returns a falsy
  value (\<^verbatim>\<open>null\<close>, \<^verbatim>\<open>undefined\<close>) in its place and \<open>Some\<close> of the array otherwise.
  \<open>videos_list\<close> and \<open>captions_list\<close> give \<^verbatim>\<open>response.data.items\<close>.
\<close>

record services =
  API_KEY :: "string option"
  videos_list :: "jsval \<Rightarrow> video list option outcome"
  fetchTranscript :: "jsval \<Rightarrow> segment list option outcome"
  getSubtitles :: "jsval \<Rightarrow> string \<Rightarrow> segment list option outcome"
  captions_list :: "jsval \<Rightarrow> caption_track list option outcome"

text \<open>
  Every external call is appended to a log, which is threaded through the handler and the
  resolver, so that "this service was not called" is a statement about the log.
\<close>

datatype call =
    VideosList jsval
  | FetchTranscript jsval
  | GetSubtitles jsval string
  | CaptionsList jsval

section \<open>getTranscript (server.js, lines 102 to 172)\<close>

text \<open>
  Each of the three methods is a \<^verbatim>\<open>try\<close>/\<^verbatim>\<open>catch\<close> block working on the local
  array \<^verbatim>\<open>errors\<close>. A block either returns from the function with the joined text
  (\<open>Found\<close>) or falls through to the code after it with the array it has (\<open>Continue\<close>).
\<close>

datatype attempt = Found string | Continue "string list"

text \<open>Method 1, lines 111 to 122.\<close>

definition method1 :: "services \<Rightarrow> jsval \<Rightarrow> string list \<Rightarrow> call list \<Rightarrow> attempt \<times> call list" where
  "method1 sv videoId errors log =
     (case fetchTranscript sv videoId of
        Returned transcriptItems \<Rightarrow>
          (case transcriptItems of
             None \<Rightarrow> (Continue errors, log @ [FetchTranscript videoId])
           | Some items \<Rightarrow>
               if length items > 0
               then (Found (join (map text_field items) '' ''), log @ [FetchTranscript videoId])
               else (Continue errors, log @ [FetchTranscript videoId]))
      | Threw error \<Rightarrow> (Continue (errors @ [message error]), log @ [FetchTranscript videoId]))"

text \<open>Method 2, lines 124 to 139.\<close>

definition method2 :: "services \<Rightarrow> jsval \<Rightarrow> string list \<Rightarrow> call list \<Rightarrow> attempt \<times> call list" where
  "method2 sv videoId errors log =
     (case getSubtitles sv videoId ''en'' of
        Returned subtitles \<Rightarrow>
          (case subtitles of
             None \<Rightarrow> (Continue errors, log @ [GetSubtitles videoId ''en''])
           | Some items \<Rightarrow>
               if length items > 0
               then (Found (join (map text_field items) '' ''), log @ [GetSubtitles videoId ''en''])
               else (Continue errors, log @ [GetSubtitles videoId ''en'']))
      | Threw error \<Rightarrow> (Continue (errors @ [message error]), log @ [GetSubtitles videoId ''en'']))"

text \<open>
  Method 3, lines 141 to 157. The \<^verbatim>\<open>throw\<close> of line 152 is inside the \<^verbatim>\<open>try\<close> block,
  so the \<^verbatim>\<open>catch\<close> of line 154 catches it and pushes its message; the block never
  leaves the function.
\<close>

definition captions_exist_message :: string where
  "captions_exist_message =
     ''Captions exist but could not be accessed. The video might have restricted captions.''"

definition method3 :: "services \<Rightarrow> jsval \<Rightarrow> string list \<Rightarrow> call list \<Rightarrow> string list \<times> call list" where
  "method3 sv videoId errors log =
     (case captions_list sv videoId of
        Returned captionItems \<Rightarrow>
          (case captionItems of
             None \<Rightarrow> (errors, log @ [CaptionsList videoId])
           | Some items \<Rightarrow>
               if length items > 0
               then (errors @ [message (new_Error captions_exist_message)],
                     log @ [CaptionsList videoId])
               else (errors, log @ [CaptionsList videoId]))
      | Threw error \<Rightarrow> (errors @ [message error], log @ [CaptionsList videoId]))"

text \<open>The three messages of lines 166, 168 and 170.\<close>

definition no_captions_message :: string where
  "no_captions_message =
     ''This video does not have available captions. Please try a different video.''"

definition unavailable_message :: string where
  "unavailable_message = ''This video is private or unavailable.''"

definition fetch_failed_message :: string where
  "fetch_failed_message =
     ''Failed to fetch transcript. Please make sure the video has captions enabled and try again.''"

text \<open>
  Lines 163 to 171: the error thrown once all methods are exhausted.
  \<^verbatim>\<open>errors.some(p)\<close> is \<open>list_ex p errors\<close>.
\<close>

definition classify :: "string list \<Rightarrow> js_error" where
  "classify errors =
     (if list_ex (\<lambda>e. str_includes e ''Could not find automatic captions'' \<or>
                      str_includes e ''Transcript is disabled'' \<or>
                      str_includes e ''subtitles are disabled'') errors
      then new_Error no_captions_message
      else if list_ex (\<lambda>e. str_includes e ''private'' \<or> str_includes e ''unavailable'') errors
      then new_Error unavailable_message
      else new_Error fetch_failed_message)"

text \<open>
  The whole function: \<open>Inr\<close> the returned transcript text, \<open>Inl\<close> the thrown error,
  together with the log of the calls made.
\<close>

definition getTranscript :: "services \<Rightarrow> jsval \<Rightarrow> call list \<Rightarrow> (js_error + string) \<times> call list" where
  "getTranscript sv videoId log =
     (case method1 sv videoId [] log of
        (Found t, log1) \<Rightarrow> (Inr t, log1)
      | (Continue errors1, log1) \<Rightarrow>
          (case method2 sv videoId errors1 log1 of
             (Found t, log2) \<Rightarrow> (Inr t, log2)
           | (Continue errors2, log2) \<Rightarrow>
               (case method3 sv videoId errors2 log2 of
                  (errors3, log3) \<Rightarrow> (Inl (classify errors3), log3))))"

section \<open>The /api/convert handler (server.js, lines 37 to 100)\<close>

text \<open>
  The JSON body of a response. The early returns of lines 41, 51 and 67 send
  \<^verbatim>\<open>{success, error}\<close>; the \<^verbatim>\<open>catch\<close> block sends \<^verbatim>\<open>{success, error, details}\<close>
  with \<^verbatim>\<open>details\<close> either the error's response data or \<^verbatim>\<open>null\<close> (\<open>None\<close>).
\<close>

datatype body =
    SuccessBody string string
  | FailureBody string
  | FailureDetailsBody string "string option"

fun success :: "body \<Rightarrow> bool" where
  "success (SuccessBody t vt) = True"
| "success (FailureBody e) = False"
| "success (FailureDetailsBody e d) = False"

fun error_field :: "body \<Rightarrow> string option" where
  "error_field (SuccessBody t vt) = None"
| "error_field (FailureBody e) = Some e"
| "error_field (FailureDetailsBody e d) = Some e"

record http_response =
  status :: nat
  body :: body

text \<open>The \<^verbatim>\<open>catch\<close> block, lines 82 to 99.\<close>

definition on_error :: "js_error \<Rightarrow> http_response" where
  "on_error error =
     (let statusCode =
            (if str_includes (message error) ''not have automatic captions'' then 400
             else if str_includes (message error) ''Video not found'' \<or>
                     str_includes (message error) ''unavailable'' then 404
             else 500)
      in \<lparr>status = statusCode,
          body = FailureDetailsBody (message error) (response error)\<rparr>)"

text \<open>\<^verbatim>\<open>!API_KEY\<close>: the environment variable is unset or the empty string.\<close>

fun key_missing :: "string option \<Rightarrow> bool" where
  "key_missing None = True"
| "key_missing (Some k) = (k = [])"

text \<open>
  The handler. The request body is a parsed JSON object, a map from property names to
  values; \<^verbatim>\<open>const { videoId } = req.body\<close> reads \<^verbatim>\<open>undefined\<close> for an absent
  property.
\<close>

definition destructure :: "(string \<rightharpoonup> jsval) \<Rightarrow> string \<Rightarrow> jsval" where
  "destructure obj k = (case obj k of None \<Rightarrow> JUndefined | Some v \<Rightarrow> v)"

definition convert :: "services \<Rightarrow> (string \<rightharpoonup> jsval) \<Rightarrow> call list \<Rightarrow> http_response \<times> call list" where
  "convert sv req_body log =
     (let videoId = destructure req_body ''videoId'' in
      if \<not> truthy videoId
      then (\<lparr>status = 400, body = FailureBody ''Video ID is required''\<rparr>, log)
      else if key_missing (API_KEY sv)
      then (\<lparr>status = 500, body = FailureBody ''YouTube API key is not configured''\<rparr>, log)
      else
        (case videos_list sv videoId of
           Threw error \<Rightarrow> (on_error error, log @ [VideosList videoId])
         | Returned None \<Rightarrow>
             (\<lparr>status = 404, body = FailureBody ''Video not found''\<rparr>, log @ [VideosList videoId])
         | Returned (Some []) \<Rightarrow>
             (\<lparr>status = 404, body = FailureBody ''Video not found''\<rparr>, log @ [VideosList videoId])
         | Returned (Some (v # vs)) \<Rightarrow>
             (case getTranscript sv videoId (log @ [VideosList videoId]) of
                (Inl error, log') \<Rightarrow> (on_error error, log')
              | (Inr transcript, log') \<Rightarrow>
                  (\<lparr>status = 200, body = SuccessBody transcript (title v)\<rparr>, log'))))"

section \<open>Test doubles and the notions the claims are stated with\<close>

text \<open>
  Services whose three caption sources answer with fixed outcomes whatever the video, with
  a configured key and a metadata lookup that finds one video titled \<open>Title\<close>.
\<close>

definition mock_services ::
  "segment list option outcome \<Rightarrow> segment list option outcome \<Rightarrow>
   caption_track list option outcome \<Rightarrow> services" where
  "mock_services a b c =
     \<lparr>API_KEY = Some ''key'',
      videos_list = (\<lambda>videoId. Returned (Some [\<lparr>title = ''Title''\<rparr>])),
      fetchTranscript = (\<lambda>videoId. a),
      getSubtitles = (\<lambda>videoId lang. b),
      captions_list = (\<lambda>videoId. c)\<rparr>"

text \<open>The two tests of lines 163 to 165 and of line 167, named.\<close>

definition captions_signal :: "string \<Rightarrow> bool" where
  "captions_signal e =
     (str_includes e ''Could not find automatic captions'' \<or>
      str_includes e ''Transcript is disabled'' \<or>
      str_includes e ''subtitles are disabled'')"

definition unavailable_signal :: "string \<Rightarrow> bool" where
  "unavailable_signal e = (str_includes e ''private'' \<or> str_includes e ''unavailable'')"

text \<open>The five phrases those tests look for, and "two messages contain the same ones".\<close>

definition trigger_phrases :: "string list" where
  "trigger_phrases =
     [''Could not find automatic captions'', ''Transcript is disabled'',
      ''subtitles are disabled'', ''private'', ''unavailable'']"

definition same_triggers :: "string \<Rightarrow> string \<Rightarrow> bool" where
  "same_triggers a b = list_all (\<lambda>p. str_includes a p = str_includes b p) trigger_phrases"

text \<open>
  Following the spec's words ("case-insensitive"): two messages that differ at most in the
  case of their ASCII letters.
\<close>

definition ascii_lower :: "char \<Rightarrow> char" where
  "ascii_lower c =
     (if 65 \<le> (of_char c :: nat) \<and> (of_char c :: nat) \<le> 90
      then char_of ((of_char c :: nat) + 32) else c)"

definition same_ignoring_case :: "string \<Rightarrow> string \<Rightarrow> bool" where
  "same_ignoring_case a b = (map ascii_lower a = map ascii_lower b)"

text \<open>
  Cutting a string at every occurrence of a separator character, used to say what a
  single-space join keeps: the pieces, their number and their order.
\<close>

fun split_on :: "char \<Rightarrow> string \<Rightarrow> string list" where
  "split_on c [] = [[]]"
| "split_on c (x # xs) =
     (if x = c then [] # split_on c xs
      else (case split_on c xs of [] \<Rightarrow> [[x]] | w # ws \<Rightarrow> (x # w) # ws))"

section \<open>Basic facts\<close>

lemma str_includes_sublist: "str_includes s p \<longleftrightarrow> sublist p s"
  by (induction s) (auto simp: sublist_Cons_right)

lemma classify_signals:
  "classify errors =
     (if list_ex captions_signal errors then new_Error no_captions_message
      else if list_ex unavailable_signal errors then new_Error unavailable_message
      else new_Error fetch_failed_message)"
  unfolding classify_def captions_signal_def unavailable_signal_def by (rule refl)

lemma messages_distinct:
  "no_captions_message \<noteq> unavailable_message"
  "no_captions_message \<noteq> fetch_failed_message"
  "unavailable_message \<noteq> fetch_failed_message"
  by (simp_all add: no_captions_message_def unavailable_message_def fetch_failed_message_def)

lemma captions_exist_message_distinct:
  "captions_exist_message \<noteq> no_captions_message"
  "captions_exist_message \<noteq> unavailable_message"
  "captions_exist_message \<noteq> fetch_failed_message"
  by (simp_all add: captions_exist_message_def no_captions_message_def
      unavailable_message_def fetch_failed_message_def)

lemma new_Error_inject: "new_Error a = new_Error b \<longleftrightarrow> a = b"
  by (simp add: new_Error_def)

lemma classify_cases:
  "classify errors = new_Error no_captions_message \<or>
   classify errors = new_Error unavailable_message \<or>
   classify errors = new_Error fetch_failed_message"
  by (simp add: classify_def)

lemma getTranscript_error:
  "getTranscript sv videoId log = (Inl e, log') \<Longrightarrow> \<exists>errors. e = classify errors"
  by (auto simp: getTranscript_def split: prod.splits attempt.splits)

text \<open>
  Whatever the services do, the message of line 152 is never the one \<open>getTranscript\<close>
  throws: it only ever reaches the \<^verbatim>\<open>errors\<close> array.
\<close>

lemma captions_exist_never_thrown:
  "fst (getTranscript sv videoId log) \<noteq> Inl (new_Error captions_exist_message)"
proof
  assume a: "fst (getTranscript sv videoId log) = Inl (new_Error captions_exist_message)"
  then obtain log' where "getTranscript sv videoId log = (Inl (new_Error captions_exist_message), log')"
    by (cases "getTranscript sv videoId log") simp
  then obtain errors where "new_Error captions_exist_message = classify errors"
    using getTranscript_error by blast
  then show False
    using classify_cases [of errors]
    by (auto simp: new_Error_inject captions_exist_message_distinct)
qed

lemma list_ex_cong_all2:
  "list_all2 R xs ys \<Longrightarrow> (\<And>a b. R a b \<Longrightarrow> P a = P b) \<Longrightarrow> list_ex P xs = list_ex P ys"
  by (induction rule: list_all2_induct) auto

lemma split_on_word: "c \<notin> set w \<Longrightarrow> split_on c (w @ c # rest) = w # split_on c rest"
  by (induction w) auto

lemma split_on_last: "c \<notin> set w \<Longrightarrow> split_on c w = [w]"
  by (induction w) auto

lemma split_on_join:
  "xs \<noteq> [] \<Longrightarrow> list_all (\<lambda>w. c \<notin> set w) xs \<Longrightarrow> split_on c (join xs [c]) = xs"
  by (induction xs "[c]" rule: join.induct) (auto simp: split_on_word split_on_last)

lemma join_blank: "list_all (\<lambda>w. w = []) xs \<Longrightarrow> join xs [c] = replicate (length xs - 1) c"
  by (induction xs "[c]" rule: join.induct) auto

lemma join_concat:
  "xs \<noteq> [] \<Longrightarrow> join xs sep = concat (map (\<lambda>w. w @ sep) (butlast xs)) @ last xs"
  by (induction xs sep rule: join.induct) auto

lemma join_texts:
  assumes "items \<noteq> []"
  shows "join (map text_field items) sep
           = concat (map (\<lambda>i. text_field i @ sep) (butlast items)) @ text_field (last items)"
  using assms by (simp add: join_concat map_butlast [symmetric] last_map comp_def)

lemma split_on_nonempty: "split_on c s \<noteq> []"
  by (induction s) (auto split: list.splits)

lemma split_on_append_sep: "split_on c (w @ c # rest) = split_on c w @ split_on c rest"
  by (induction w) (auto simp: split_on_nonempty split: list.splits)

lemma split_on_join_general:
  "xs \<noteq> [] \<Longrightarrow> split_on c (join xs [c]) = concat (map (split_on c) xs)"
  by (induction xs "[c]" rule: join.induct) (auto simp: split_on_append_sep)


text \<open>
  The status the \<^verbatim>\<open>catch\<close> block gives each of the three errors of the resolver, and the
  early 404 of line 67 when the metadata lookup finds no video (no caption source is called
  then).
\<close>

lemma on_error_status:
  "status (on_error (new_Error no_captions_message)) = 500"
  "status (on_error (new_Error unavailable_message)) = 404"
  "status (on_error (new_Error fetch_failed_message)) = 500"
  by (simp_all add: on_error_def new_Error_def no_captions_message_def
      unavailable_message_def fetch_failed_message_def)

lemma convert_video_not_found:
  assumes "truthy (destructure req_body ''videoId'')"
    and "\<not> key_missing (API_KEY sv)"
    and "videos_list sv (destructure req_body ''videoId'') = Returned None \<or>
         videos_list sv (destructure req_body ''videoId'') = Returned (Some [])"
  shows "convert sv req_body log
           = (\<lparr>status = 404, body = FailureBody ''Video not found''\<rparr>,
              log @ [VideosList (destructure req_body ''videoId'')])"
  using assms by (auto simp: convert_def Let_def)

section \<open>The resolver's error reporting\<close>

text \<open>
  C1. The claim: when the first source fails, the second yields zero segments and the
  captions probe reports that tracks exist, \<open>getTranscript\<close> throws the distinct
  "captions exist but could not be accessed" error. The code does not: at the input below
  (first source throws \<open>Request failed\<close>, second returns an empty array, the probe lists one
  track) all three services are called and the error thrown is the generic "failed to
  fetch" one, because the \<^verbatim>\<open>throw\<close> of line 152 is caught by the \<^verbatim>\<open>catch\<close> of its own
  \<^verbatim>\<open>try\<close> block.
\<close>

theorem captions_exist_error_is_swallowed:
  "getTranscript
     (mock_services (Threw (new_Error ''Request failed'')) (Returned (Some []))
        (Returned (Some [''track1''])))
     (JStr ''abc'') []
   = (Inl (new_Error fetch_failed_message),
      [FetchTranscript (JStr ''abc''), GetSubtitles (JStr ''abc'') ''en'',
       CaptionsList (JStr ''abc'')])
   \<and> fetch_failed_message \<noteq> captions_exist_message"
  by (simp add: getTranscript_def method1_def method2_def method3_def mock_services_def
      classify_def new_Error_def captions_exist_message_def fetch_failed_message_def)

text \<open>
  C2, as the spec states it: a failure list with both an unavailable signal and a
  captions-disabled signal classifies as "video unavailable". It fails on the list below,
  which has both signals and classifies as "no captions".
\<close>

theorem unavailable_precedence_counterexample:
  "list_ex unavailable_signal [''Video unavailable'', ''Transcript is disabled on this video''] \<and>
   list_ex captions_signal [''Video unavailable'', ''Transcript is disabled on this video''] \<and>
   classify [''Video unavailable'', ''Transcript is disabled on this video'']
     = new_Error no_captions_message \<and>
   classify [''Video unavailable'', ''Transcript is disabled on this video'']
     \<noteq> new_Error unavailable_message"
  by (simp add: classify_def unavailable_signal_def captions_signal_def new_Error_def
      no_captions_message_def unavailable_message_def)

text \<open>
  C2, amended: the captions-disabled test comes first. Whenever some message carries a
  captions-disabled phrase the error is "no captions", whatever else the list holds; the
  error is "video unavailable" exactly when some message carries \<open>private\<close> or
  \<open>unavailable\<close> and no message carries a captions-disabled phrase.
\<close>

theorem no_captions_precedence:
  "(list_ex captions_signal errors \<longrightarrow> classify errors = new_Error no_captions_message) \<and>
   (classify errors = new_Error unavailable_message \<longleftrightarrow>
      list_ex unavailable_signal errors \<and> \<not> list_ex captions_signal errors)"
  by (simp add: classify_signals new_Error_inject messages_distinct
      messages_distinct [symmetric])

theorem no_captions_precedence_witness:
  "list_ex captions_signal [''Video unavailable'', ''subtitles are disabled''] \<and>
   classify [''Video unavailable'', ''subtitles are disabled''] = new_Error no_captions_message \<and>
   list_ex unavailable_signal [''This video is private''] \<and>
   \<not> list_ex captions_signal [''This video is private''] \<and>
   classify [''This video is private''] = new_Error unavailable_message"
  using no_captions_precedence [of "[''Video unavailable'', ''subtitles are disabled'']"]
        no_captions_precedence [of "[''This video is private'']"]
  by (simp add: captions_signal_def unavailable_signal_def)

text \<open>
  C3, as the spec states it: classification does not change when the letter case of the
  raw messages changes. It fails: the two messages below differ in case only, the first
  classifies as the generic failure and the second as "no captions".
\<close>

theorem case_insensitive_counterexample:
  "same_ignoring_case ''TRANSCRIPT IS DISABLED'' ''Transcript is disabled'' \<and>
   classify [''TRANSCRIPT IS DISABLED''] \<noteq> classify [''Transcript is disabled'']"
  by code_simp

text \<open>
  C3, amended: the phrases are matched as exact, case-sensitive substrings. Two failure
  lists of the same length whose messages contain, position by position, the same ones of
  the five phrases as the code spells them classify alike.
\<close>

theorem classify_exact_phrases:
  assumes "list_all2 same_triggers xs ys"
  shows "classify xs = classify ys"
proof -
  have c: "captions_signal a = captions_signal b" if "same_triggers a b" for a b
    using that by (simp add: same_triggers_def trigger_phrases_def captions_signal_def)
  have u: "unavailable_signal a = unavailable_signal b" if "same_triggers a b" for a b
    using that by (simp add: same_triggers_def trigger_phrases_def unavailable_signal_def)
  have "list_ex captions_signal xs = list_ex captions_signal ys"
    using assms c by (rule list_ex_cong_all2)
  moreover have "list_ex unavailable_signal xs = list_ex unavailable_signal ys"
    using assms u by (rule list_ex_cong_all2)
  ultimately show ?thesis by (simp add: classify_signals)
qed

theorem classify_exact_phrases_witness:
  "list_all2 same_triggers [''Transcript is disabled on this video'', ''timeout'']
                           [''Error: Transcript is disabled'', ''TIMEOUT''] \<and>
   classify [''Transcript is disabled on this video'', ''timeout'']
     = classify [''Error: Transcript is disabled'', ''TIMEOUT'']"
proof -
  have h: "list_all2 same_triggers [''Transcript is disabled on this video'', ''timeout'']
                           [''Error: Transcript is disabled'', ''TIMEOUT'']"
    by (simp add: same_triggers_def trigger_phrases_def)
  show ?thesis using h classify_exact_phrases [OF h] by simp
qed

section \<open>The handler's status codes\<close>

text \<open>
  C4. The claim: the handler answers 400 when resolution ends in "no captions". The code
  answers 500: at the input below (a found video whose first source throws
  \<open>Transcript is disabled on this video\<close> and whose other sources have nothing) the
  resolver throws the message of line 166, "This video does not have available captions
  ...", and the handler's test of line 88 looks for \<open>not have automatic captions\<close>, which
  that message does not contain.
\<close>

theorem no_captions_status_is_500:
  "convert
     (mock_services (Threw (new_Error ''Transcript is disabled on this video''))
        (Returned (Some [])) (Returned (Some [])))
     [''videoId'' \<mapsto> JStr ''abc''] []
   = (\<lparr>status = 500, body = FailureDetailsBody no_captions_message None\<rparr>,
      [VideosList (JStr ''abc''), FetchTranscript (JStr ''abc''),
       GetSubtitles (JStr ''abc'') ''en'', CaptionsList (JStr ''abc'')])
   \<and> str_includes no_captions_message ''not have automatic captions'' = False"
  by (simp add: convert_def Let_def destructure_def on_error_def getTranscript_def method1_def
      method2_def method3_def mock_services_def classify_def new_Error_def
      no_captions_message_def)

section \<open>The order of the sources\<close>

text \<open>
  C5. When the first source returns at least one segment, \<open>getTranscript\<close> returns the
  joined text of those segments, and the only call it adds to the log is the one to the
  first source: neither the second source nor the captions probe is called.
\<close>

theorem first_adapter_short_circuit:
  assumes "fetchTranscript sv videoId = Returned (Some items)" and "length items \<ge> 1"
  shows "getTranscript sv videoId log
           = (Inr (join (map text_field items) '' ''), log @ [FetchTranscript videoId])"
  using assms by (cases items) (simp_all add: getTranscript_def method1_def)

theorem first_adapter_short_circuit_witness:
  "getTranscript
     (mock_services (Returned (Some [\<lparr>text_field = ''Never gonna''\<rparr>]))
        (Threw (new_Error ''must not be called'')) (Threw (new_Error ''must not be called'')))
     (JStr ''dQw4w9WgXcQ'') []
   = (Inr ''Never gonna'', [FetchTranscript (JStr ''dQw4w9WgXcQ'')])"
  using first_adapter_short_circuit
    [of "mock_services (Returned (Some [\<lparr>text_field = ''Never gonna''\<rparr>]))
           (Threw (new_Error ''must not be called'')) (Threw (new_Error ''must not be called''))"
        "JStr ''dQw4w9WgXcQ''" "[\<lparr>text_field = ''Never gonna''\<rparr>]" "[]"]
  by (simp add: mock_services_def)





section \<open>The handler\<close>

text \<open>
  C7. When the request body has no \<^verbatim>\<open>videoId\<close>, or a falsy one (\<^verbatim>\<open>null\<close>,
  \<^verbatim>\<open>false\<close>, \<^verbatim>\<open>0\<close>, the empty string), the handler answers 400 with
  \<^verbatim>\<open>success: false\<close> and the log of external calls is unchanged: neither the metadata
  lookup nor any caption source is called.
\<close>

theorem missing_videoId_rejected:
  assumes "\<not> truthy (destructure req_body ''videoId'')"
  shows "convert sv req_body log
           = (\<lparr>status = 400, body = FailureBody ''Video ID is required''\<rparr>, log)
         \<and> success (body (fst (convert sv req_body log))) = False"
  using assms by (simp add: convert_def Let_def)

theorem missing_videoId_rejected_witness:
  "\<not> truthy (destructure Map.empty ''videoId'') \<and>
   \<not> truthy (destructure [''videoId'' \<mapsto> JStr []] ''videoId'') \<and>
   convert (mock_services (Threw (new_Error ''x'')) (Threw (new_Error ''x'')) (Threw (new_Error ''x'')))
     Map.empty []
     = (\<lparr>status = 400, body = FailureBody ''Video ID is required''\<rparr>, []) \<and>
   convert (mock_services (Threw (new_Error ''x'')) (Threw (new_Error ''x'')) (Threw (new_Error ''x'')))
     [''videoId'' \<mapsto> JStr []] []
     = (\<lparr>status = 400, body = FailureBody ''Video ID is required''\<rparr>, [])"
  using missing_videoId_rejected
          [of Map.empty
              "mock_services (Threw (new_Error ''x'')) (Threw (new_Error ''x'')) (Threw (new_Error ''x''))"
              "[]"]
        missing_videoId_rejected
          [of "[''videoId'' \<mapsto> JStr []]"
              "mock_services (Threw (new_Error ''x'')) (Threw (new_Error ''x'')) (Threw (new_Error ''x''))"
              "[]"]
  by (simp add: destructure_def)

text \<open>
  C8. Whenever the handler reaches the resolver (a truthy \<^verbatim>\<open>videoId\<close>, a configured
  key, a video found) and the resolver throws, the thrown message is one of the three fixed
  messages of lines 166, 168 and 170, and the response body is
  \<^verbatim>\<open>{success: false, error: <that message>, details: null}\<close>: no message of a caption
  source reaches the caller.
\<close>

theorem only_classified_message_surfaced:
  assumes "truthy (destructure req_body ''videoId'')"
    and "\<not> key_missing (API_KEY sv)"
    and "videos_list sv (destructure req_body ''videoId'') = Returned (Some (v # vs))"
    and "getTranscript sv (destructure req_body ''videoId'')
           (log @ [VideosList (destructure req_body ''videoId'')]) = (Inl e, log')"
  shows "message e \<in> {no_captions_message, unavailable_message, fetch_failed_message} \<and>
         body (fst (convert sv req_body log)) = FailureDetailsBody (message e) None"
proof -
  obtain errors where e: "e = classify errors"
    using getTranscript_error [OF assms(4)] by blast
  have m: "message e \<in> {no_captions_message, unavailable_message, fetch_failed_message}"
    using classify_cases [of errors] by (auto simp: e new_Error_def)
  have r: "response e = None"
    using classify_cases [of errors] by (auto simp: e new_Error_def)
  have "fst (convert sv req_body log) = on_error e"
    using assms by (simp add: convert_def Let_def)
  then show ?thesis using m r by (simp add: on_error_def Let_def)
qed

theorem only_classified_message_surfaced_witness:
  "body (fst (convert
     (mock_services (Threw (new_Error ''HTTP 429 from provider: quota exceeded''))
        (Threw (new_Error ''ECONNRESET''))
        (Threw (new_Error ''The request is missing a valid API key.'')))
     [''videoId'' \<mapsto> JStr ''abc''] []))
   = FailureDetailsBody fetch_failed_message None"
  using only_classified_message_surfaced
    [of "[''videoId'' \<mapsto> JStr ''abc'']"
        "mock_services (Threw (new_Error ''HTTP 429 from provider: quota exceeded''))
           (Threw (new_Error ''ECONNRESET''))
           (Threw (new_Error ''The request is missing a valid API key.''))"
        "\<lparr>title = ''Title''\<rparr>" "[]" "[]" "new_Error fetch_failed_message"
        "[VideosList (JStr ''abc''), FetchTranscript (JStr ''abc''),
          GetSubtitles (JStr ''abc'') ''en'', CaptionsList (JStr ''abc'')]"]
  by (simp add: destructure_def mock_services_def getTranscript_def method1_def method2_def
      method3_def classify_def new_Error_def)

section \<open>The transcript text\<close>

text \<open>
  C9. For a non-empty segment list, the transcript text is every segment's text but the
  last followed by one space, in order, and then the last segment's text: this is what
  \<open>getTranscript\<close> returns when the first source gives the list, and when the first
  source gives nothing (it throws, or returns no list or an empty one) and the second
  source gives it. It is the value of \<open>join\<close> with a single space. Cutting it at its
  spaces gives the pieces of the first text, then those of the second, and so on; when no
  text contains a space, that is exactly the texts, in their order. The two segments
  \<open>Hello\<close> and \<open>world\<close> give \<open>Hello world\<close>.
\<close>

theorem transcript_is_space_join:
  assumes "items \<noteq> []"
  shows "(fetchTranscript sv videoId = Returned (Some items) \<longrightarrow>
            fst (getTranscript sv videoId log)
              = Inr (concat (map (\<lambda>i. text_field i @ '' '') (butlast items))
                     @ text_field (last items)))
       \<and> (((\<exists>err. fetchTranscript sv videoId = Threw err) \<or>
           fetchTranscript sv videoId = Returned None \<or>
           fetchTranscript sv videoId = Returned (Some [])) \<and>
          getSubtitles sv videoId ''en'' = Returned (Some items) \<longrightarrow>
            fst (getTranscript sv videoId log)
              = Inr (concat (map (\<lambda>i. text_field i @ '' '') (butlast items))
                     @ text_field (last items)))
       \<and> join (map text_field items) '' ''
            = concat (map (\<lambda>i. text_field i @ '' '') (butlast items)) @ text_field (last items)
       \<and> split_on (CHR '' '') (join (map text_field items) '' '')
            = concat (map (\<lambda>i. split_on (CHR '' '') (text_field i)) items)
       \<and> (list_all (\<lambda>i. CHR '' '' \<notin> set (text_field i)) items \<longrightarrow>
            split_on (CHR '' '') (join (map text_field items) '' '') = map text_field items)
       \<and> join (map text_field [\<lparr>text_field = ''Hello''\<rparr>, \<lparr>text_field = ''world''\<rparr>]) '' ''
            = ''Hello world''"
proof -
  let ?t = "concat (map (\<lambda>i. text_field i @ '' '') (butlast items)) @ text_field (last items)"
  have j: "join (map text_field items) '' '' = ?t"
    using assms by (rule join_texts)
  have a: "fst (getTranscript sv videoId log) = Inr ?t"
    if "fetchTranscript sv videoId = Returned (Some items)"
    using that assms j by (cases items) (simp_all add: getTranscript_def method1_def)
  have b: "fst (getTranscript sv videoId log) = Inr ?t"
    if "(\<exists>err. fetchTranscript sv videoId = Threw err) \<or>
        fetchTranscript sv videoId = Returned None \<or>
        fetchTranscript sv videoId = Returned (Some [])"
      and "getSubtitles sv videoId ''en'' = Returned (Some items)"
    using that assms j
    by (cases items) (auto simp: getTranscript_def method1_def method2_def)
  have s: "split_on (CHR '' '') (join (map text_field items) [CHR '' ''])
             = concat (map (\<lambda>i. split_on (CHR '' '') (text_field i)) items)"
    using assms by (simp add: split_on_join_general comp_def)
  have f: "split_on (CHR '' '') (join (map text_field items) [CHR '' '']) = map text_field items"
    if "list_all (\<lambda>i. CHR '' '' \<notin> set (text_field i)) items"
    using that assms by (intro split_on_join) (auto simp: list_all_iff)
  have h: "join (map text_field [\<lparr>text_field = ''Hello''\<rparr>, \<lparr>text_field = ''world''\<rparr>]) '' ''
             = ''Hello world''"
    by simp
  show ?thesis using a b j s f h by blast
qed

theorem transcript_is_space_join_witness:
  "fst (getTranscript
          (mock_services (Returned (Some [\<lparr>text_field = ''Hello''\<rparr>, \<lparr>text_field = ''big world''\<rparr>]))
             (Returned None) (Returned None))
          (JStr ''abc'') []) = Inr ''Hello big world''
   \<and> fst (getTranscript
          (mock_services (Threw (new_Error ''Request failed''))
             (Returned (Some [\<lparr>text_field = ''Hello''\<rparr>, \<lparr>text_field = ''world''\<rparr>]))
             (Returned None))
          (JStr ''abc'') []) = Inr ''Hello world''
   \<and> split_on (CHR '' '') ''Hello world'' = [''Hello'', ''world'']"
  using transcript_is_space_join
          [of "[\<lparr>text_field = ''Hello''\<rparr>, \<lparr>text_field = ''big world''\<rparr>]"
              "mock_services (Returned (Some [\<lparr>text_field = ''Hello''\<rparr>, \<lparr>text_field = ''big world''\<rparr>]))
                 (Returned None) (Returned None)"
              "JStr ''abc''" "[]"]
        transcript_is_space_join
          [of "[\<lparr>text_field = ''Hello''\<rparr>, \<lparr>text_field = ''world''\<rparr>]"
              "mock_services (Threw (new_Error ''Request failed''))
                 (Returned (Some [\<lparr>text_field = ''Hello''\<rparr>, \<lparr>text_field = ''world''\<rparr>]))
                 (Returned None)"
              "JStr ''abc''" "[]"]
  by (simp add: mock_services_def)

text \<open>
  C10. The success test counts segments and does not look at their text: when the first
  source returns a non-empty list whose texts are all empty, \<open>getTranscript\<close> succeeds
  and the transcript consists of the separating spaces only (one fewer than the segments),
  so it holds no character other than a space.
\<close>

theorem blank_segments_succeed:
  assumes "fetchTranscript sv videoId = Returned (Some items)"
    and "items \<noteq> []" and "list_all (\<lambda>i. text_field i = []) items"
  shows "fst (getTranscript sv videoId log) = Inr (replicate (length items - 1) (CHR '' ''))"
proof -
  have "join (map text_field items) [CHR '' '']
          = replicate (length (map text_field items) - 1) (CHR '' '')"
    using assms(3) by (intro join_blank) (simp add: list_all_iff)
  then show ?thesis using assms by (cases items) (simp_all add: getTranscript_def method1_def)
qed

theorem blank_segments_succeed_witness:
  "fst (getTranscript
     (mock_services (Returned (Some [\<lparr>text_field = []\<rparr>, \<lparr>text_field = []\<rparr>]))
        (Returned (Some [])) (Returned (Some [])))
     (JStr ''abc'') []) = Inr '' ''
   \<and> list_all (\<lambda>c. c = CHR '' '') '' ''"
  using blank_segments_succeed
    [of "mock_services (Returned (Some [\<lparr>text_field = []\<rparr>, \<lparr>text_field = []\<rparr>]))
        (Returned (Some [])) (Returned (Some []))" "JStr ''abc''"
        "[\<lparr>text_field = []\<rparr>, \<lparr>text_field = []\<rparr>]" "[]"]
  by (simp add: mock_services_def)

end
